theory Spec2Isabelle
  imports Main "HOL-Library.AList"
begin

section \<open>Constants (constants/index.js)\<close>

text \<open>\<^verbatim>\<open>ROOM_CONFIG.MAX_USERS_DEFAULT\<close>, \<^verbatim>\<open>ERROR_MESSAGES.ROOM_FULL\<close> and the
  \<^verbatim>\<open>SOCKET_EVENTS\<close> names that the handlers emit.\<close>

definition MAX_USERS_DEFAULT :: nat where
  "MAX_USERS_DEFAULT = 2"

definition ROOM_FULL :: string where
  "ROOM_FULL = ''Room is full''"

definition ROOM_CREATED :: string where
  "ROOM_CREATED = ''room-created''"

definition USER_JOINED :: string where
  "USER_JOINED = ''user-joined''"

definition USER_LEFT :: string where
  "USER_LEFT = ''user-left''"

definition JOIN_ERROR :: string where
  "JOIN_ERROR = ''join-error''"




definition MEDIA_STATE_CHANGE :: string where
  "MEDIA_STATE_CHANGE = ''media-state-change''"

definition CALL_ENDED :: string where
  "CALL_ENDED = ''call-ended''"

section \<open>JavaScript values used by the code\<close>

text \<open>A JavaScript \<^verbatim>\<open>Set\<close> of strings keeps insertion order (\<^verbatim>\<open>Array.from\<close> lists it in
  that order): a list without repetition. \<^verbatim>\<open>add\<close> of a present element changes nothing,
  \<^verbatim>\<open>delete\<close> of an absent one changes nothing, \<^verbatim>\<open>size\<close> is the length.\<close>

definition set_add :: "'a \<Rightarrow> 'a list \<Rightarrow> 'a list" where
  "set_add x xs = (if x \<in> set xs then xs else xs @ [x])"

definition set_delete :: "'a \<Rightarrow> 'a list \<Rightarrow> 'a list" where
  "set_delete x xs = removeAll x xs"

definition set_size :: "'a list \<Rightarrow> nat" where
  "set_size xs = length xs"

text \<open>Truthiness of a string in a JavaScript condition: every string but the empty one.\<close>

definition truthy :: "string \<Rightarrow> bool" where
  "truthy s = (s \<noteq> [])"

section \<open>RoomManager\<close>

text \<open>The room object stored in \<^verbatim>\<open>this.rooms\<close>; \<^verbatim>\<open>createdAt\<close> is the clock reading taken
  at creation.\<close>

record room =
  room_id :: string
  users :: "string list"
  createdAt :: nat
  maxUsers :: nat

text \<open>The object built by \<^verbatim>\<open>_sanitizeRoom\<close>.\<close>

record room_info =
  info_id :: string
  info_users :: "string list"
  info_userCount :: nat
  info_maxUsers :: nat
  info_createdAt :: nat

text \<open>An element of the array built by \<^verbatim>\<open>getAllRooms\<close>.\<close>

record room_summary =
  sum_id :: string
  sum_userCount :: nat
  sum_maxUsers :: nat
  sum_createdAt :: nat

text \<open>\<^verbatim>\<open>this.rooms\<close> is a JavaScript \<^verbatim>\<open>Map\<close>: iteration follows insertion order, \<^verbatim>\<open>set\<close>
  of a new key appends, a stored room object is mutated in place. An association list
  with \<^const>\<open>AList.update\<close> (replace in place, or append) and \<^const>\<open>AList.delete\<close>.\<close>

type_synonym registry = "(string \<times> room) list"

definition sanitizeRoom :: "room \<Rightarrow> room_info" where
  "sanitizeRoom r =
     \<lparr>info_id = room_id r, info_users = users r, info_userCount = set_size (users r),
      info_maxUsers = maxUsers r, info_createdAt = createdAt r\<rparr>"

definition roomExists :: "string \<Rightarrow> registry \<Rightarrow> bool" where
  "roomExists roomId rooms = (map_of rooms roomId \<noteq> None)"

text \<open>\<^verbatim>\<open>createRoom\<close>: when the key is absent a fresh room is stored first; the room then
  read back under the key gets the user added (the lookup always finds one, so the
  \<open>None\<close> case below is never taken). \<open>now\<close> is the value of \<^verbatim>\<open>new Date()\<close>.\<close>

definition createRoom :: "nat \<Rightarrow> string \<Rightarrow> string \<Rightarrow> registry \<Rightarrow> registry \<times> room_info" where
  "createRoom now roomId userId rooms =
     (let rooms1 =
            (if \<not> roomExists roomId rooms
             then AList.update roomId
                    \<lparr>room_id = roomId, users = [], createdAt = now,
                     maxUsers = MAX_USERS_DEFAULT\<rparr> rooms
             else rooms);
          r = (case map_of rooms1 roomId of
                 Some r0 \<Rightarrow> r0
               | None \<Rightarrow> \<lparr>room_id = roomId, users = [], createdAt = now,
                          maxUsers = MAX_USERS_DEFAULT\<rparr>);
          r' = r\<lparr>users := set_add userId (users r)\<rparr>
      in (AList.update roomId r' rooms1, sanitizeRoom r'))"

text \<open>The three results of \<^verbatim>\<open>joinRoom\<close>: \<^verbatim>\<open>null\<close>, \<^verbatim>\<open>{ error: ... }\<close>, or the sanitized
  room.\<close>

datatype join_result = JoinNull | JoinError string | JoinRoom room_info

definition joinRoom :: "string \<Rightarrow> string \<Rightarrow> registry \<Rightarrow> registry \<times> join_result" where
  "joinRoom roomId userId rooms =
     (case map_of rooms roomId of
        None \<Rightarrow> (rooms, JoinNull)
      | Some r \<Rightarrow>
          if set_size (users r) \<ge> maxUsers r then (rooms, JoinError ROOM_FULL)
          else (let r' = r\<lparr>users := set_add userId (users r)\<rparr>
                in (AList.update roomId r' rooms, JoinRoom (sanitizeRoom r'))))"

text \<open>\<^verbatim>\<open>leaveRoom\<close> returns \<^verbatim>\<open>null\<close> (here \<open>None\<close>) both when the room is absent and when
  it has just been deleted.\<close>

definition leaveRoom :: "string \<Rightarrow> string \<Rightarrow> registry \<Rightarrow> registry \<times> room_info option" where
  "leaveRoom roomId userId rooms =
     (case map_of rooms roomId of
        None \<Rightarrow> (rooms, None)
      | Some r \<Rightarrow>
          (let r' = r\<lparr>users := set_delete userId (users r)\<rparr>
           in if set_size (users r') = 0 then (AList.delete roomId rooms, None)
              else (AList.update roomId r' rooms, Some (sanitizeRoom r'))))"

definition getRoomUsers :: "string \<Rightarrow> registry \<Rightarrow> string list" where
  "getRoomUsers roomId rooms = (case map_of rooms roomId of Some r \<Rightarrow> users r | None \<Rightarrow> [])"

text \<open>\<^verbatim>\<open>getUserRoom\<close>: the loop over the map's entries, first match wins.\<close>

fun getUserRoom :: "string \<Rightarrow> registry \<Rightarrow> string option" where
  "getUserRoom userId [] = None"
| "getUserRoom userId ((roomId, r) # rest) =
     (if userId \<in> set (users r) then Some roomId else getUserRoom userId rest)"

definition getRoomInfo :: "string \<Rightarrow> registry \<Rightarrow> room_info option" where
  "getRoomInfo roomId rooms = map_option sanitizeRoom (map_of rooms roomId)"

definition getAllRooms :: "registry \<Rightarrow> room_summary list" where
  "getAllRooms rooms =
     map (\<lambda>(k, r). \<lparr>sum_id = room_id r, sum_userCount = set_size (users r),
                    sum_maxUsers = maxUsers r, sum_createdAt = createdAt r\<rparr>) rooms"

definition getRoomCount :: "registry \<Rightarrow> nat" where
  "getRoomCount rooms = length rooms"

subsection \<open>Sequences of registry operations\<close>

text \<open>The three mutating methods as a datatype of calls, run from the registry of the
  constructor (\<^verbatim>\<open>new Map()\<close>).\<close>

datatype reg_op =
    CreateOp nat string string
  | JoinOp string string
  | LeaveOp string string

fun apply_op :: "reg_op \<Rightarrow> registry \<Rightarrow> registry" where
  "apply_op (CreateOp now roomId userId) rooms = fst (createRoom now roomId userId rooms)"
| "apply_op (JoinOp roomId userId) rooms = fst (joinRoom roomId userId rooms)"
| "apply_op (LeaveOp roomId userId) rooms = fst (leaveRoom roomId userId rooms)"

fun op_room :: "reg_op \<Rightarrow> string" where
  "op_room (CreateOp now roomId userId) = roomId"
| "op_room (JoinOp roomId userId) = roomId"
| "op_room (LeaveOp roomId userId) = roomId"

fun run :: "reg_op list \<Rightarrow> registry \<Rightarrow> registry" where
  "run [] rooms = rooms"
| "run (c # cs) rooms = run cs (apply_op c rooms)"

text \<open>The properties a registry has after any sequence of calls: keys are not repeated,
  a room is stored under its own id, has a member, lists no member twice and has the
  default capacity.\<close>

definition room_ok :: "string \<times> room \<Rightarrow> bool" where
  "room_ok p = (room_id (snd p) = fst p \<and> users (snd p) \<noteq> [] \<and> distinct (users (snd p))
                \<and> maxUsers (snd p) = MAX_USERS_DEFAULT)"

definition registry_ok :: "registry \<Rightarrow> bool" where
  "registry_ok rooms = (distinct (map fst rooms) \<and> list_all room_ok rooms)"

text \<open>The capacity property of one registry.\<close>

definition within_capacity :: "registry \<Rightarrow> bool" where
  "within_capacity rooms = list_all (\<lambda>p. set_size (users (snd p)) \<le> maxUsers (snd p)) rooms"

section \<open>SignalingHandler\<close>

text \<open>What the handler asks of the transport (socket.io), in the order of the calls:
  \<^verbatim>\<open>socket.join(room)\<close>, and an emission addressed by \<^verbatim>\<open>socket.emit\<close> (the socket
  itself), \<^verbatim>\<open>io.to(room).emit\<close> (the whole group) or \<^verbatim>\<open>socket.to(room).emit\<close> (the group
  without the sending socket). A payload is the object literal of the source: its field
  names with their values; \<open>'p\<close> is the type of the client data forwarded untouched.\<close>

datatype 'p jsval = Str string | StrList "string list" | Raw 'p

type_synonym 'p payload = "(string \<times> 'p jsval) list"

datatype target =
    ToSocket string
  | ToRoom string
  | ToRoomExceptSender string string

datatype 'p transport_call =
    SocketJoin string string
  | Emit target string "'p payload"

text \<open>Who receives an emission, given the transport's table of group members (a parameter:
  the table belongs to the transport).\<close>

fun recipients :: "(string \<Rightarrow> string set) \<Rightarrow> target \<Rightarrow> string set" where
  "recipients members (ToSocket s) = {s}"
| "recipients members (ToRoom g) = members g"
| "recipients members (ToRoomExceptSender g s) = members g - {s}"

text \<open>A table of group members for concrete runs: each connection alone in the group
  named by its own id.\<close>

definition own_group :: "string \<Rightarrow> string set" where
  "own_group g = {g}"

text \<open>The handler's own state: the room manager and the keys of \<^verbatim>\<open>userSockets\<close>.\<close>

record handler =
  roomManager :: registry
  userSockets :: "string list"

datatype js_error = TypeError

definition handleConnection :: "string \<Rightarrow> handler \<Rightarrow> handler" where
  "handleConnection socketId h = h\<lparr>userSockets := set_add socketId (userSockets h)\<rparr>"

text \<open>\<^verbatim>\<open>handleDisconnection\<close>: the test \<^verbatim>\<open>if (roomId)\<close> is a truthiness test on the result
  of \<^verbatim>\<open>getUserRoom\<close>, so it fails for \<^verbatim>\<open>null\<close> and for the empty string.\<close>

definition handleDisconnection :: "string \<Rightarrow> handler \<Rightarrow> handler \<times> 'p transport_call list" where
  "handleDisconnection socketId h =
     (let found = getUserRoom socketId (roomManager h);
          (rooms', calls) =
            (case found of
               Some roomId \<Rightarrow>
                 if truthy roomId
                 then (fst (leaveRoom roomId socketId (roomManager h)),
                       [Emit (ToRoomExceptSender roomId socketId) USER_LEFT
                          [(''userId'', Str socketId), (''roomId'', Str roomId)]])
                 else (roomManager h, [])
             | None \<Rightarrow> (roomManager h, []))
      in (h\<lparr>roomManager := rooms', userSockets := set_delete socketId (userSockets h)\<rparr>, calls))"

text \<open>The \<^verbatim>\<open>CREATE_ROOM\<close> listener. In the branch of an existing room, \<^verbatim>\<open>result?.error\<close>
  is falsy for \<^verbatim>\<open>null\<close>, and \<^verbatim>\<open>result.users\<close> then throws.\<close>

definition on_create_room ::
  "string \<Rightarrow> nat \<Rightarrow> string \<Rightarrow> handler \<Rightarrow> js_error + handler \<times> 'p transport_call list" where
  "on_create_room socketId now roomId h =
     (if roomExists roomId (roomManager h)
      then (case joinRoom roomId socketId (roomManager h) of
              (rooms', JoinError e) \<Rightarrow>
                if truthy e
                then Inr (h\<lparr>roomManager := rooms'\<rparr>,
                          [Emit (ToSocket socketId) JOIN_ERROR [(''error'', Str e)]])
                else Inl TypeError
            | (rooms', JoinNull) \<Rightarrow> Inl TypeError
            | (rooms', JoinRoom info) \<Rightarrow>
                Inr (h\<lparr>roomManager := rooms'\<rparr>,
                     [SocketJoin socketId roomId,
                      Emit (ToRoom roomId) USER_JOINED
                        [(''roomId'', Str roomId), (''userId'', Str socketId),
                         (''users'', StrList (info_users info))]]))
      else (case createRoom now roomId socketId (roomManager h) of
              (rooms', info) \<Rightarrow>
                Inr (h\<lparr>roomManager := rooms'\<rparr>,
                     [SocketJoin socketId roomId,
                      Emit (ToSocket socketId) ROOM_CREATED
                        [(''roomId'', Str (info_id info)), (''userId'', Str socketId),
                         (''users'', StrList (info_users info))]])))"

text \<open>The \<^verbatim>\<open>JOIN_ROOM\<close> listener.\<close>

definition on_join_room ::
  "string \<Rightarrow> nat \<Rightarrow> string \<Rightarrow> handler \<Rightarrow> js_error + handler \<times> 'p transport_call list" where
  "on_join_room socketId now roomId h =
     (let joined = (\<lambda>rooms' info.
            Inr (h\<lparr>roomManager := rooms'\<rparr>,
                 [SocketJoin socketId roomId,
                  Emit (ToRoom roomId) USER_JOINED
                    [(''roomId'', Str roomId), (''userId'', Str socketId),
                     (''users'', StrList (info_users info))]]))
      in case joinRoom roomId socketId (roomManager h) of
           (rooms', JoinNull) \<Rightarrow>
             (case createRoom now roomId socketId rooms' of
                (rooms'', info) \<Rightarrow> joined rooms'' info)
         | (rooms', JoinError e) \<Rightarrow>
             if truthy e
             then Inr (h\<lparr>roomManager := rooms'\<rparr>,
                       [Emit (ToSocket socketId) JOIN_ERROR [(''error'', Str e)]])
             else Inl TypeError
         | (rooms', JoinRoom info) \<Rightarrow> joined rooms' info)"





definition on_media_state_change ::
  "string \<Rightarrow> string \<Rightarrow> 'p \<Rightarrow> handler \<Rightarrow> handler \<times> 'p transport_call list" where
  "on_media_state_change socketId roomId mediaState h =
     (h, [Emit (ToRoomExceptSender roomId socketId) MEDIA_STATE_CHANGE
            [(''userId'', Str socketId), (''mediaState'', Raw mediaState)]])"

definition on_end_call :: "string \<Rightarrow> string \<Rightarrow> handler \<Rightarrow> handler \<times> 'p transport_call list" where
  "on_end_call socketId roomId h =
     (h, [Emit (ToRoomExceptSender roomId socketId) CALL_ENDED [(''userId'', Str socketId)]])"

section \<open>Basic facts\<close>

lemma map_of_update_same: "map_of (AList.update k v al) k = Some v"
  by (simp add: update_conv')

lemma map_of_update_other: "k' \<noteq> k \<Longrightarrow> map_of (AList.update k v al) k' = map_of al k'"
  by (simp add: update_conv')

lemma set_add_member: "x \<in> set (set_add x xs)"
  by (simp add: set_add_def)

lemma set_add_idem: "set_add x (set_add x xs) = set_add x xs"
  by (simp add: set_add_def)

lemma createRoom_existing:
  assumes "map_of rooms roomId = Some r"
  shows "createRoom now roomId userId rooms =
           (AList.update roomId (r\<lparr>users := set_add userId (users r)\<rparr>) rooms,
            sanitizeRoom (r\<lparr>users := set_add userId (users r)\<rparr>))"
  using assms by (simp add: createRoom_def roomExists_def Let_def)

lemma createRoom_fresh:
  assumes "map_of rooms roomId = None"
  shows "createRoom now roomId userId rooms =
           (AList.update roomId \<lparr>room_id = roomId, users = [userId], createdAt = now,
                     maxUsers = MAX_USERS_DEFAULT\<rparr> rooms,
            sanitizeRoom \<lparr>room_id = roomId, users = [userId], createdAt = now,
                     maxUsers = MAX_USERS_DEFAULT\<rparr>)"
  using assms by (simp add: createRoom_def roomExists_def map_of_update_same set_add_def Let_def)

lemma joinRoom_full:
  "map_of rooms roomId = Some r \<Longrightarrow> maxUsers r \<le> set_size (users r) \<Longrightarrow>
   joinRoom roomId userId rooms = (rooms, JoinError ROOM_FULL)"
  by (simp add: joinRoom_def)

lemma joinRoom_absent:
  "map_of rooms roomId = None \<Longrightarrow> joinRoom roomId userId rooms = (rooms, JoinNull)"
  by (simp add: joinRoom_def)

lemma joinRoom_space:
  "map_of rooms roomId = Some r \<Longrightarrow> set_size (users r) < maxUsers r \<Longrightarrow>
   joinRoom roomId userId rooms =
     (AList.update roomId (r\<lparr>users := set_add userId (users r)\<rparr>) rooms,
      JoinRoom (sanitizeRoom (r\<lparr>users := set_add userId (users r)\<rparr>)))"
  by (simp add: joinRoom_def Let_def)

subsection \<open>The registry invariant\<close>

lemma list_all_update:
  "list_all P al \<Longrightarrow> P (k, v) \<Longrightarrow> list_all P (AList.update k v al)"
  by (induction al) auto

lemma list_all_delete: "list_all P al \<Longrightarrow> list_all P (AList.delete k al)"
  by (simp add: AList.delete_eq list_all_iff)

lemma list_all_map_of:
  "list_all P al \<Longrightarrow> map_of al k = Some v \<Longrightarrow> P (k, v)"
  by (auto simp: list_all_iff dest: map_of_SomeD)

lemma registry_ok_update:
  "registry_ok rooms \<Longrightarrow> room_ok (k, r) \<Longrightarrow> registry_ok (AList.update k r rooms)"
  by (simp add: registry_ok_def distinct_update list_all_update)

lemma registry_ok_delete: "registry_ok rooms \<Longrightarrow> registry_ok (AList.delete k rooms)"
  by (simp add: registry_ok_def distinct_delete list_all_delete)

lemma registry_ok_lookup:
  "registry_ok rooms \<Longrightarrow> map_of rooms k = Some r \<Longrightarrow> room_ok (k, r)"
  unfolding registry_ok_def by (blast intro: list_all_map_of)

lemma distinct_set_add: "distinct xs \<Longrightarrow> distinct (set_add x xs)"
  by (simp add: set_add_def)

lemma set_add_nonempty: "set_add x xs \<noteq> []"
  by (simp add: set_add_def) auto

lemma room_ok_add:
  "room_ok (k, r) \<Longrightarrow> room_ok (k, r\<lparr>users := set_add u (users r)\<rparr>)"
  by (simp add: room_ok_def distinct_set_add set_add_nonempty)

lemma registry_ok_createRoom:
  assumes "registry_ok rooms"
  shows "registry_ok (fst (createRoom now roomId userId rooms))"
proof (cases "map_of rooms roomId")
  case None
  have "room_ok (roomId, \<lparr>room_id = roomId, users = [userId], createdAt = now,
                     maxUsers = MAX_USERS_DEFAULT\<rparr>)"
    by (simp add: room_ok_def)
  with assms show ?thesis
    by (simp add: createRoom_fresh [OF None] registry_ok_update)
next
  case (Some r)
  from assms Some have "room_ok (roomId, r)" by (rule registry_ok_lookup)
  then have "room_ok (roomId, r\<lparr>users := set_add userId (users r)\<rparr>)" by (rule room_ok_add)
  with assms show ?thesis
    by (simp add: createRoom_existing [OF Some] registry_ok_update)
qed

lemma registry_ok_joinRoom:
  assumes "registry_ok rooms"
  shows "registry_ok (fst (joinRoom roomId userId rooms))"
proof (cases "map_of rooms roomId")
  case None
  with assms show ?thesis by (simp add: joinRoom_def)
next
  case (Some r)
  from assms Some have "room_ok (roomId, r)" by (rule registry_ok_lookup)
  then have "room_ok (roomId, r\<lparr>users := set_add userId (users r)\<rparr>)" by (rule room_ok_add)
  with assms Some show ?thesis
    by (simp add: joinRoom_def Let_def registry_ok_update)
qed

lemma registry_ok_leaveRoom:
  assumes "registry_ok rooms"
  shows "registry_ok (fst (leaveRoom roomId userId rooms))"
proof (cases "map_of rooms roomId")
  case None
  with assms show ?thesis by (simp add: leaveRoom_def)
next
  case (Some r)
  from assms Some have ok: "room_ok (roomId, r)" by (rule registry_ok_lookup)
  show ?thesis
  proof (cases "set_delete userId (users r) = []")
    case True
    with assms Some show ?thesis
      by (simp add: leaveRoom_def Let_def set_size_def registry_ok_delete)
  next
    case False
    with ok have "room_ok (roomId, r\<lparr>users := set_delete userId (users r)\<rparr>)"
      by (simp add: room_ok_def set_delete_def distinct_removeAll)
    with assms Some False show ?thesis
      by (simp add: leaveRoom_def Let_def set_size_def registry_ok_update)
  qed
qed

lemma registry_ok_apply_op: "registry_ok rooms \<Longrightarrow> registry_ok (apply_op c rooms)"
  by (cases c) (simp_all add: registry_ok_createRoom registry_ok_joinRoom registry_ok_leaveRoom)

lemma registry_ok_run: "registry_ok rooms \<Longrightarrow> registry_ok (run cs rooms)"
  by (induction cs arbitrary: rooms) (simp_all add: registry_ok_apply_op)

lemma registry_ok_empty: "registry_ok []"
  by (simp add: registry_ok_def)

lemma registry_ok_reachable: "registry_ok (run cs [])"
  by (rule registry_ok_run [OF registry_ok_empty])

lemma length_set_add: "length (set_add x xs) \<le> Suc (length xs)"
  by (simp add: set_add_def)

lemma getAllRooms_ids:
  "list_all room_ok rooms \<Longrightarrow> map sum_id (getAllRooms rooms) = map fst rooms"
  by (induction rooms) (auto simp: getAllRooms_def room_ok_def)

lemma registry_ok_users:
  "registry_ok rooms \<Longrightarrow> list_all (\<lambda>p. users (snd p) \<noteq> []) rooms"
  by (simp add: registry_ok_def list_all_iff room_ok_def)

lemma filter_update_other:
  "filter (\<lambda>p. fst p \<noteq> k) (AList.update k v al) = filter (\<lambda>p. fst p \<noteq> k) al"
  by (induction al) auto

lemma filter_delete_other:
  "filter (\<lambda>p. fst p \<noteq> k) (AList.delete k al) = filter (\<lambda>p. fst p \<noteq> k) al"
  by (induction al) auto

subsection \<open>Effect of one operation on the rooms\<close>

lemma apply_op_others:
  "filter (\<lambda>p. fst p \<noteq> op_room c) (apply_op c rooms) = filter (\<lambda>p. fst p \<noteq> op_room c) rooms"
proof (cases c)
  case (CreateOp now roomId userId)
  then show ?thesis
    by (cases "map_of rooms roomId")
       (simp_all add: createRoom_fresh createRoom_existing filter_update_other)
next
  case (JoinOp roomId userId)
  then show ?thesis
    by (cases "map_of rooms roomId")
       (simp_all add: joinRoom_def Let_def filter_update_other)
next
  case (LeaveOp roomId userId)
  then show ?thesis
    by (cases "map_of rooms roomId")
       (simp_all add: leaveRoom_def Let_def filter_update_other filter_delete_other)
qed

lemma apply_op_lookup_other:
  assumes "k \<noteq> op_room c"
  shows "map_of (apply_op c rooms) k = map_of rooms k"
proof (cases c)
  case (CreateOp now roomId userId)
  with assms show ?thesis
    by (cases "map_of rooms roomId")
       (simp_all add: createRoom_fresh createRoom_existing map_of_update_other)
next
  case (JoinOp roomId userId)
  with assms show ?thesis
    by (cases "map_of rooms roomId")
       (simp_all add: joinRoom_def Let_def map_of_update_other)
next
  case (LeaveOp roomId userId)
  with assms show ?thesis
    by (cases "map_of rooms roomId")
       (simp_all add: leaveRoom_def Let_def map_of_update_other)
qed

lemma apply_op_fixed_fields:
  assumes "map_of rooms (op_room c) = Some a" and "map_of (apply_op c rooms) (op_room c) = Some b"
  shows "room_id b = room_id a \<and> maxUsers b = maxUsers a \<and> createdAt b = createdAt a"
proof (cases c)
  case (CreateOp now roomId userId)
  with assms show ?thesis
    by (auto simp: createRoom_existing map_of_update_same)
next
  case (JoinOp roomId userId)
  with assms show ?thesis
    by (auto simp: joinRoom_def Let_def map_of_update_same split: if_splits)
next
  case (LeaveOp roomId userId)
  with assms show ?thesis
    by (auto simp: leaveRoom_def Let_def map_of_update_same delete_conv' split: if_splits)
qed

lemma reachable_room_fields:
  assumes "map_of (run cs []) k = Some r"
  shows "room_id r = k \<and> maxUsers r = MAX_USERS_DEFAULT"
  using registry_ok_lookup [OF registry_ok_reachable assms] by (simp add: room_ok_def)

section \<open>Properties of the room registry\<close>

text \<open>C4. On a room that exists, \<^verbatim>\<open>createRoom\<close> (the spec's createOrJoin) adds the member
  and returns the sanitized room whatever the member count is: the stored member list
  and the returned one are the old list with the user added, also when the room is at or
  above its capacity, where the count then exceeds \<^verbatim>\<open>maxUsers\<close>. The result type has
  no error value. In the same state \<^verbatim>\<open>joinRoom\<close> refuses with the room-full error.\<close>

theorem createRoom_no_capacity_check:
  assumes "map_of rooms roomId = Some r"
  shows "fst (createRoom now roomId userId rooms)
           = AList.update roomId (r\<lparr>users := set_add userId (users r)\<rparr>) rooms
       \<and> snd (createRoom now roomId userId rooms)
           = sanitizeRoom (r\<lparr>users := set_add userId (users r)\<rparr>)
       \<and> userId \<in> set (getRoomUsers roomId (fst (createRoom now roomId userId rooms)))
       \<and> info_users (snd (createRoom now roomId userId rooms))
           = getRoomUsers roomId (fst (createRoom now roomId userId rooms))
       \<and> (maxUsers r \<le> set_size (users r) \<and> userId \<notin> set (users r) \<longrightarrow>
            info_userCount (snd (createRoom now roomId userId rooms)) = Suc (set_size (users r))
          \<and> info_maxUsers (snd (createRoom now roomId userId rooms))
              < info_userCount (snd (createRoom now roomId userId rooms)))
       \<and> (maxUsers r \<le> set_size (users r) \<longrightarrow>
            joinRoom roomId userId rooms = (rooms, JoinError ROOM_FULL))"
  using assms
  by (simp add: createRoom_existing getRoomUsers_def map_of_update_same sanitizeRoom_def
      set_add_member set_size_def joinRoom_def) (simp add: set_add_def)

theorem createRoom_no_capacity_check_witness:
  "map_of [(''R'', \<lparr>room_id = ''R'', users = [''a'', ''b''], createdAt = 0, maxUsers = 2\<rparr>)] ''R''
     = Some \<lparr>room_id = ''R'', users = [''a'', ''b''], createdAt = 0, maxUsers = 2\<rparr>
   \<and> info_users (snd (createRoom 7 ''R'' ''c''
         [(''R'', \<lparr>room_id = ''R'', users = [''a'', ''b''], createdAt = 0, maxUsers = 2\<rparr>)]))
       = [''a'', ''b'', ''c'']
   \<and> info_userCount (snd (createRoom 7 ''R'' ''c''
         [(''R'', \<lparr>room_id = ''R'', users = [''a'', ''b''], createdAt = 0, maxUsers = 2\<rparr>)]))
       = 3
   \<and> snd (joinRoom ''R'' ''c''
         [(''R'', \<lparr>room_id = ''R'', users = [''a'', ''b''], createdAt = 0, maxUsers = 2\<rparr>)])
       = JoinError ''Room is full''"
proof -
  have h: "map_of [(''R'', \<lparr>room_id = ''R'', users = [''a'', ''b''], createdAt = 0, maxUsers = 2\<rparr>)] ''R''
     = Some \<lparr>room_id = ''R'', users = [''a'', ''b''], createdAt = 0, maxUsers = 2\<rparr>"
    by simp
  show ?thesis
    using h createRoom_no_capacity_check [OF h, of 7 "''c''"]
    by (simp add: sanitizeRoom_def set_add_def set_size_def getRoomUsers_def ROOM_FULL_def)
qed

text \<open>C8. A second \<^verbatim>\<open>createRoom\<close> with the same room id and the same user, at whatever
  later clock reading, leaves the registry as the first call left it and returns the same
  sanitized room (member list, count, capacity and creation time).\<close>

theorem createRoom_idempotent:
  "createRoom now2 roomId userId (fst (createRoom now1 roomId userId rooms))
     = createRoom now1 roomId userId rooms"
proof (cases "map_of rooms roomId")
  case None
  show ?thesis
    by (simp add: createRoom_fresh [OF None] createRoom_existing [OF map_of_update_same] set_add_def)
next
  case (Some r)
  show ?thesis
    by (simp add: createRoom_existing [OF Some] createRoom_existing [OF map_of_update_same] set_add_idem)
qed

text \<open>C1 (as amended). \<^verbatim>\<open>joinRoom\<close> keeps the capacity property: when every stored room
  has at most \<^verbatim>\<open>maxUsers\<close> members before the call, every stored room has so after it. On
  a room whose count is at or above \<^verbatim>\<open>maxUsers\<close>, in any registry whatever, the call
  returns the room-full error and the registry it was given.\<close>

theorem joinRoom_preserves_capacity:
  "(within_capacity rooms \<longrightarrow> within_capacity (fst (joinRoom roomId userId rooms)))
   \<and> (\<forall>r. map_of rooms roomId = Some r \<and> maxUsers r \<le> set_size (users r) \<longrightarrow>
          joinRoom roomId userId rooms = (rooms, JoinError ROOM_FULL))"
proof (intro conjI allI impI)
  assume cap: "within_capacity rooms"
  show "within_capacity (fst (joinRoom roomId userId rooms))"
  proof (cases "map_of rooms roomId")
    case None
    with cap show ?thesis by (simp add: joinRoom_absent)
  next
    case (Some r)
    show ?thesis
    proof (cases "maxUsers r \<le> set_size (users r)")
      case True
      with cap Some show ?thesis by (simp add: joinRoom_full)
    next
      case False
      then have "set_size (set_add userId (users r)) \<le> maxUsers r"
        using length_set_add [of userId "users r"] by (simp add: set_size_def)
      with cap Some False show ?thesis
        by (simp add: joinRoom_space within_capacity_def list_all_update)
    qed
  qed
next
  fix r
  assume "map_of rooms roomId = Some r \<and> maxUsers r \<le> set_size (users r)"
  then show "joinRoom roomId userId rooms = (rooms, JoinError ROOM_FULL)"
    by (simp add: joinRoom_full)
qed

theorem joinRoom_preserves_capacity_witness:
  "within_capacity [(''R'', \<lparr>room_id = ''R'', users = [''a''], createdAt = 0, maxUsers = 2\<rparr>)]
   \<and> fst (joinRoom ''R'' ''b'' [(''R'', \<lparr>room_id = ''R'', users = [''a''], createdAt = 0, maxUsers = 2\<rparr>)]) = [(''R'', \<lparr>room_id = ''R'', users = [''a'', ''b''], createdAt = 0, maxUsers = 2\<rparr>)]
   \<and> within_capacity (fst (joinRoom ''R'' ''b'' [(''R'', \<lparr>room_id = ''R'', users = [''a''], createdAt = 0, maxUsers = 2\<rparr>)]))
   \<and> within_capacity [(''R'', \<lparr>room_id = ''R'', users = [''a'', ''b''], createdAt = 0, maxUsers = 2\<rparr>)]
   \<and> joinRoom ''R'' ''c'' [(''R'', \<lparr>room_id = ''R'', users = [''a'', ''b''], createdAt = 0, maxUsers = 2\<rparr>)] = ([(''R'', \<lparr>room_id = ''R'', users = [''a'', ''b''], createdAt = 0, maxUsers = 2\<rparr>)], JoinError ''Room is full'')
   \<and> map_of [(''R'', \<lparr>room_id = ''R'', users = [''a'', ''b'', ''c''], createdAt = 0, maxUsers = 2\<rparr>)] ''R'' = Some \<lparr>room_id = ''R'', users = [''a'', ''b'', ''c''], createdAt = 0, maxUsers = 2\<rparr>
   \<and> maxUsers \<lparr>room_id = ''R'', users = [''a'', ''b'', ''c''], createdAt = 0, maxUsers = 2\<rparr> \<le> set_size (users \<lparr>room_id = ''R'', users = [''a'', ''b'', ''c''], createdAt = 0, maxUsers = 2\<rparr>)
   \<and> \<not> within_capacity [(''R'', \<lparr>room_id = ''R'', users = [''a'', ''b'', ''c''], createdAt = 0, maxUsers = 2\<rparr>)]
   \<and> joinRoom ''R'' ''d'' [(''R'', \<lparr>room_id = ''R'', users = [''a'', ''b'', ''c''], createdAt = 0, maxUsers = 2\<rparr>)] = ([(''R'', \<lparr>room_id = ''R'', users = [''a'', ''b'', ''c''], createdAt = 0, maxUsers = 2\<rparr>)], JoinError ''Room is full'')"
proof -
  have h1: "within_capacity [(''R'', \<lparr>room_id = ''R'', users = [''a''], createdAt = 0, maxUsers = 2\<rparr>)]"
    by (simp add: within_capacity_def set_size_def)
  have j1: "fst (joinRoom ''R'' ''b'' [(''R'', \<lparr>room_id = ''R'', users = [''a''], createdAt = 0, maxUsers = 2\<rparr>)]) = [(''R'', \<lparr>room_id = ''R'', users = [''a'', ''b''], createdAt = 0, maxUsers = 2\<rparr>)]"
    by (simp add: joinRoom_def Let_def set_add_def set_size_def)
  have h2: "within_capacity [(''R'', \<lparr>room_id = ''R'', users = [''a'', ''b''], createdAt = 0, maxUsers = 2\<rparr>)]"
    by (simp add: within_capacity_def set_size_def)
  have f2: "map_of [(''R'', \<lparr>room_id = ''R'', users = [''a'', ''b''], createdAt = 0, maxUsers = 2\<rparr>)] ''R'' = Some \<lparr>room_id = ''R'', users = [''a'', ''b''], createdAt = 0, maxUsers = 2\<rparr> \<and> maxUsers \<lparr>room_id = ''R'', users = [''a'', ''b''], createdAt = 0, maxUsers = 2\<rparr> \<le> set_size (users \<lparr>room_id = ''R'', users = [''a'', ''b''], createdAt = 0, maxUsers = 2\<rparr>)"
    by (simp add: set_size_def)
  have f3: "map_of [(''R'', \<lparr>room_id = ''R'', users = [''a'', ''b'', ''c''], createdAt = 0, maxUsers = 2\<rparr>)] ''R'' = Some \<lparr>room_id = ''R'', users = [''a'', ''b'', ''c''], createdAt = 0, maxUsers = 2\<rparr> \<and> maxUsers \<lparr>room_id = ''R'', users = [''a'', ''b'', ''c''], createdAt = 0, maxUsers = 2\<rparr> \<le> set_size (users \<lparr>room_id = ''R'', users = [''a'', ''b'', ''c''], createdAt = 0, maxUsers = 2\<rparr>)"
    by (simp add: set_size_def)
  have n3: "\<not> within_capacity [(''R'', \<lparr>room_id = ''R'', users = [''a'', ''b'', ''c''], createdAt = 0, maxUsers = 2\<rparr>)]"
    by (simp add: within_capacity_def set_size_def)
  have a: "within_capacity (fst (joinRoom ''R'' ''b'' [(''R'', \<lparr>room_id = ''R'', users = [''a''], createdAt = 0, maxUsers = 2\<rparr>)]))"
    using h1 joinRoom_preserves_capacity [of "[(''R'', \<lparr>room_id = ''R'', users = [''a''], createdAt = 0, maxUsers = 2\<rparr>)]" "''R''" "''b''"] by blast
  have b: "joinRoom ''R'' ''c'' [(''R'', \<lparr>room_id = ''R'', users = [''a'', ''b''], createdAt = 0, maxUsers = 2\<rparr>)] = ([(''R'', \<lparr>room_id = ''R'', users = [''a'', ''b''], createdAt = 0, maxUsers = 2\<rparr>)], JoinError ROOM_FULL)"
    using f2 joinRoom_preserves_capacity [of "[(''R'', \<lparr>room_id = ''R'', users = [''a'', ''b''], createdAt = 0, maxUsers = 2\<rparr>)]" "''R''" "''c''"] by blast
  have c: "joinRoom ''R'' ''d'' [(''R'', \<lparr>room_id = ''R'', users = [''a'', ''b'', ''c''], createdAt = 0, maxUsers = 2\<rparr>)] = ([(''R'', \<lparr>room_id = ''R'', users = [''a'', ''b'', ''c''], createdAt = 0, maxUsers = 2\<rparr>)], JoinError ROOM_FULL)"
    using f3 joinRoom_preserves_capacity [of "[(''R'', \<lparr>room_id = ''R'', users = [''a'', ''b'', ''c''], createdAt = 0, maxUsers = 2\<rparr>)]" "''R''" "''d''"] by blast
  from h1 j1 a h2 b f3 n3 c show ?thesis
    by (simp only: ROOM_FULL_def simp_thms)
qed

text \<open>The claim as stated, over every registry that a sequence of calls produces, fails:
  three \<^verbatim>\<open>createRoom\<close> calls on one room put three members in a room of capacity two,
  and the registry after a following \<^verbatim>\<open>joinRoom\<close> (which is refused) still holds that
  room.\<close>

theorem joinRoom_capacity_counterexample:
  "\<not> within_capacity
       (run [CreateOp 0 ''R'' ''a'', CreateOp 1 ''R'' ''b'', CreateOp 2 ''R'' ''c'',
             JoinOp ''R'' ''d''] [])"
  by (simp add: within_capacity_def createRoom_def joinRoom_def roomExists_def Let_def
      set_add_def set_size_def MAX_USERS_DEFAULT_def)

text \<open>C3. After any sequence of \<^verbatim>\<open>createRoom\<close>, \<^verbatim>\<open>joinRoom\<close> and \<^verbatim>\<open>leaveRoom\<close> calls on
  a new registry, every stored room has a member. When \<^verbatim>\<open>leaveRoom\<close> removes the last
  member of a stored room, that same call deletes the room and returns \<^verbatim>\<open>null\<close>; after
  it \<^verbatim>\<open>roomExists\<close> is false and \<^verbatim>\<open>getAllRooms\<close> has no entry with that id.\<close>

theorem no_empty_room:
  "list_all (\<lambda>p. users (snd p) \<noteq> []) (run cs [])
   \<and> (\<forall>r. map_of (run cs []) roomId = Some r \<and> set_delete userId (users r) = [] \<longrightarrow>
         leaveRoom roomId userId (run cs []) = (AList.delete roomId (run cs []), None)
       \<and> \<not> roomExists roomId (fst (leaveRoom roomId userId (run cs [])))
       \<and> roomId \<notin> set (map sum_id (getAllRooms (fst (leaveRoom roomId userId (run cs []))))))"
proof -
  have ok: "registry_ok (run cs [])" by (rule registry_ok_reachable)
  have "registry_ok (AList.delete roomId (run cs []))"
    using ok by (rule registry_ok_delete)
  then have ids: "map sum_id (getAllRooms (AList.delete roomId (run cs [])))
                    = map fst (AList.delete roomId (run cs []))"
    by (simp add: registry_ok_def getAllRooms_ids)
  have notin: "roomId \<notin> fst ` set (AList.delete roomId (run cs []))"
    by (rule delete_notin_dom)
  have gone: "map_of (AList.delete roomId (run cs [])) roomId = None"
    by (simp add: delete_conv')
  show ?thesis
    using registry_ok_users [OF ok] ids notin gone
    by (simp add: leaveRoom_def Let_def set_size_def roomExists_def)
qed

theorem no_empty_room_witness:
  "map_of (run [CreateOp 0 ''R'' ''a''] []) ''R'' = Some \<lparr>room_id = ''R'', users = [''a''], createdAt = 0, maxUsers = 2\<rparr>
   \<and> set_delete ''a'' (users \<lparr>room_id = ''R'', users = [''a''], createdAt = 0, maxUsers = 2\<rparr>) = []
   \<and> leaveRoom ''R'' ''a'' (run [CreateOp 0 ''R'' ''a''] []) = ([], None)
   \<and> \<not> roomExists ''R'' (fst (leaveRoom ''R'' ''a'' (run [CreateOp 0 ''R'' ''a''] [])))
   \<and> list_all (\<lambda>p. users (snd p) \<noteq> []) (run [CreateOp 0 ''R'' ''a''] [])"
proof -
  have r: "run [CreateOp 0 ''R'' ''a''] [] = [(''R'', \<lparr>room_id = ''R'', users = [''a''], createdAt = 0, maxUsers = 2\<rparr>)]"
    by (simp add: createRoom_def roomExists_def Let_def set_add_def MAX_USERS_DEFAULT_def)
  have d: "set_delete ''a'' (users \<lparr>room_id = ''R'', users = [''a''], createdAt = 0, maxUsers = 2\<rparr>) = []"
    by (simp add: set_delete_def)
  show ?thesis
    using d no_empty_room [of "[CreateOp 0 ''R'' ''a'']" "''R''" "''a''"]
    unfolding r by (simp add: roomExists_def)
qed

text \<open>C9. On a registry produced by any sequence of calls, \<^verbatim>\<open>leaveRoom\<close> for a user who is
  not a member of the (existing) room changes nothing: the registry is the one given, the
  room is not deleted, and the result is the sanitized room as it was (same member list,
  count and capacity), not \<^verbatim>\<open>null\<close>.\<close>

theorem leaveRoom_absent_member:
  assumes "map_of (run cs []) roomId = Some r" and "userId \<notin> set (users r)"
  shows "leaveRoom roomId userId (run cs []) = (run cs [], Some (sanitizeRoom r))"
proof -
  have "room_ok (roomId, r)"
    using registry_ok_reachable assms(1) by (rule registry_ok_lookup)
  then have ne: "users r \<noteq> []" by (simp add: room_ok_def)
  have same: "set_delete userId (users r) = users r"
    using assms(2) by (simp add: set_delete_def)
  show ?thesis
    using assms(1) ne same by (simp add: leaveRoom_def Let_def set_size_def update_triv)
qed

theorem leaveRoom_absent_member_witness:
  "map_of (run [CreateOp 0 ''R'' ''a''] []) ''R'' = Some \<lparr>room_id = ''R'', users = [''a''], createdAt = 0, maxUsers = 2\<rparr>
   \<and> ''z'' \<notin> set (users \<lparr>room_id = ''R'', users = [''a''], createdAt = 0, maxUsers = 2\<rparr>)
   \<and> leaveRoom ''R'' ''z'' (run [CreateOp 0 ''R'' ''a''] [])
       = (run [CreateOp 0 ''R'' ''a''] [], Some (sanitizeRoom \<lparr>room_id = ''R'', users = [''a''], createdAt = 0, maxUsers = 2\<rparr>))"
proof -
  have h1: "map_of (run [CreateOp 0 ''R'' ''a''] []) ''R'' = Some \<lparr>room_id = ''R'', users = [''a''], createdAt = 0, maxUsers = 2\<rparr>"
    by (simp add: createRoom_def roomExists_def Let_def set_add_def MAX_USERS_DEFAULT_def)
  have h2: "''z'' \<notin> set (users \<lparr>room_id = ''R'', users = [''a''], createdAt = 0, maxUsers = 2\<rparr>)"
    by simp
  from h1 h2 leaveRoom_absent_member [OF h1 h2] show ?thesis by blast
qed

text \<open>C10. One call of \<^verbatim>\<open>createRoom\<close>, \<^verbatim>\<open>joinRoom\<close> or \<^verbatim>\<open>leaveRoom\<close> leaves every room
  other than the one it names as it was (same entries, same order); if the named room is
  stored before and after the call, its id, capacity and creation time are the same. In
  a registry produced by any sequence of calls every room is stored under its own id with
  capacity \<^verbatim>\<open>MAX_USERS_DEFAULT\<close>, which is 2.\<close>

theorem registry_frame:
  "filter (\<lambda>p. fst p \<noteq> op_room c) (apply_op c rooms) = filter (\<lambda>p. fst p \<noteq> op_room c) rooms
   \<and> (\<forall>k. k \<noteq> op_room c \<longrightarrow> map_of (apply_op c rooms) k = map_of rooms k)
   \<and> (\<forall>a b. map_of rooms (op_room c) = Some a \<and> map_of (apply_op c rooms) (op_room c) = Some b
        \<longrightarrow> room_id b = room_id a \<and> maxUsers b = maxUsers a \<and> createdAt b = createdAt a)
   \<and> (\<forall>k r. map_of (run cs []) k = Some r \<longrightarrow> room_id r = k \<and> maxUsers r = MAX_USERS_DEFAULT)
   \<and> MAX_USERS_DEFAULT = 2"
proof (intro conjI allI impI)
  show "filter (\<lambda>p. fst p \<noteq> op_room c) (apply_op c rooms) = filter (\<lambda>p. fst p \<noteq> op_room c) rooms"
    by (rule apply_op_others)
next
  fix k assume "k \<noteq> op_room c"
  then show "map_of (apply_op c rooms) k = map_of rooms k"
    by (rule apply_op_lookup_other)
next
  fix a b
  assume ab: "map_of rooms (op_room c) = Some a \<and> map_of (apply_op c rooms) (op_room c) = Some b"
  have *: "room_id b = room_id a \<and> maxUsers b = maxUsers a \<and> createdAt b = createdAt a"
    using ab apply_op_fixed_fields [of rooms c a b] by blast
  show "room_id b = room_id a" using * by simp
  show "maxUsers b = maxUsers a" using * by simp
  show "createdAt b = createdAt a" using * by simp
next
  fix k r assume kr: "map_of (run cs []) k = Some r"
  show "room_id r = k" using reachable_room_fields [OF kr] by simp
  show "maxUsers r = MAX_USERS_DEFAULT" using reachable_room_fields [OF kr] by simp
next
  show "MAX_USERS_DEFAULT = 2" by (simp add: MAX_USERS_DEFAULT_def)
qed

theorem registry_frame_witness:
  "''A'' \<noteq> op_room (JoinOp ''B'' ''w'')
   \<and> map_of (apply_op (JoinOp ''B'' ''w'')
         [(''A'', \<lparr>room_id = ''A'', users = [''u''], createdAt = 3, maxUsers = 2\<rparr>),
          (''B'', \<lparr>room_id = ''B'', users = [''v''], createdAt = 4, maxUsers = 2\<rparr>)]) ''A''
       = Some \<lparr>room_id = ''A'', users = [''u''], createdAt = 3, maxUsers = 2\<rparr>
   \<and> map_of (apply_op (JoinOp ''B'' ''w'')
         [(''A'', \<lparr>room_id = ''A'', users = [''u''], createdAt = 3, maxUsers = 2\<rparr>),
          (''B'', \<lparr>room_id = ''B'', users = [''v''], createdAt = 4, maxUsers = 2\<rparr>)]) ''B''
       = Some \<lparr>room_id = ''B'', users = [''v'', ''w''], createdAt = 4, maxUsers = 2\<rparr>
   \<and> map_of (run [CreateOp 3 ''A'' ''u''] []) ''A''
       = Some \<lparr>room_id = ''A'', users = [''u''], createdAt = 3, maxUsers = 2\<rparr>"
proof -
  have neq: "''A'' \<noteq> op_room (JoinOp ''B'' ''w'')" by simp
  have other: "map_of (apply_op (JoinOp ''B'' ''w'')
         [(''A'', \<lparr>room_id = ''A'', users = [''u''], createdAt = 3, maxUsers = 2\<rparr>),
          (''B'', \<lparr>room_id = ''B'', users = [''v''], createdAt = 4, maxUsers = 2\<rparr>)]) ''A''
       = map_of [(''A'', \<lparr>room_id = ''A'', users = [''u''], createdAt = 3, maxUsers = 2\<rparr>),
          (''B'', \<lparr>room_id = ''B'', users = [''v''], createdAt = 4, maxUsers = 2\<rparr>)] ''A''"
    using neq registry_frame [of "JoinOp ''B'' ''w''"
        "[(''A'', \<lparr>room_id = ''A'', users = [''u''], createdAt = 3, maxUsers = 2\<rparr>),
          (''B'', \<lparr>room_id = ''B'', users = [''v''], createdAt = 4, maxUsers = 2\<rparr>)]"
        "[CreateOp 3 ''A'' ''u'']"]
    by blast
  have joined: "map_of (apply_op (JoinOp ''B'' ''w'')
         [(''A'', \<lparr>room_id = ''A'', users = [''u''], createdAt = 3, maxUsers = 2\<rparr>),
          (''B'', \<lparr>room_id = ''B'', users = [''v''], createdAt = 4, maxUsers = 2\<rparr>)]) ''B''
       = Some \<lparr>room_id = ''B'', users = [''v'', ''w''], createdAt = 4, maxUsers = 2\<rparr>"
    by (simp add: joinRoom_def Let_def set_add_def set_size_def)
  have made: "map_of (run [CreateOp 3 ''A'' ''u''] []) ''A''
       = Some \<lparr>room_id = ''A'', users = [''u''], createdAt = 3, maxUsers = 2\<rparr>"
    by (simp add: createRoom_def roomExists_def Let_def set_add_def MAX_USERS_DEFAULT_def)
  from neq other joined made show ?thesis by simp
qed

section \<open>Properties of the signaling handler\<close>

text \<open>The \<^verbatim>\<open>TypeError\<close> branches of the two room listeners are never taken: an existing room
  makes \<^verbatim>\<open>joinRoom\<close> return an object, and the error string is not empty.\<close>

lemma on_create_room_no_throw: "on_create_room socketId now roomId h \<noteq> Inl e"
proof (cases "map_of (roomManager h) roomId")
  case None
  then show ?thesis
    by (simp add: on_create_room_def roomExists_def split: prod.splits)
next
  case (Some r)
  then show ?thesis
    by (cases "maxUsers r \<le> set_size (users r)")
       (simp_all add: on_create_room_def roomExists_def joinRoom_def Let_def truthy_def
          ROOM_FULL_def)
qed

lemma on_join_room_no_throw: "on_join_room socketId now roomId h \<noteq> Inl e"
proof (cases "map_of (roomManager h) roomId")
  case None
  then show ?thesis
    by (simp add: on_join_room_def joinRoom_def split: prod.splits)
next
  case (Some r)
  then show ?thesis
    by (cases "maxUsers r \<le> set_size (users r)")
       (simp_all add: on_join_room_def joinRoom_def Let_def truthy_def ROOM_FULL_def)
qed

lemma handleDisconnection_in_room:
  assumes "getUserRoom socketId (roomManager h) = Some roomId" and "roomId \<noteq> []"
  shows "handleDisconnection socketId h =
           (h\<lparr>roomManager := fst (leaveRoom roomId socketId (roomManager h)),
              userSockets := set_delete socketId (userSockets h)\<rparr>,
            [Emit (ToRoomExceptSender roomId socketId) ''user-left''
               [(''userId'', Str socketId), (''roomId'', Str roomId)]])"
  using assms by (simp add: handleDisconnection_def truthy_def USER_LEFT_def)

lemma handleDisconnection_no_room:
  assumes "getUserRoom socketId (roomManager h) = None"
  shows "handleDisconnection socketId h =
           (h\<lparr>userSockets := set_delete socketId (userSockets h)\<rparr>, [])"
  using assms by (simp add: handleDisconnection_def)

lemma handleDisconnection_unregisters:
  "socketId \<notin> set (userSockets (fst (handleDisconnection socketId h)))"
  by (simp add: handleDisconnection_def set_delete_def split: option.splits prod.splits)

text \<open>C2. A \<^verbatim>\<open>create-room\<close> request for a room that exists and is full makes exactly one
  transport call: a \<^verbatim>\<open>join-error\<close> emission on the requesting socket alone, with the
  single field \<^verbatim>\<open>error\<close> = \<^verbatim>\<open>Room is full\<close>. The handler state, registry included, is
  unchanged and there is no \<^verbatim>\<open>socket.join\<close>.\<close>

theorem create_room_full:
  assumes "map_of (roomManager h) roomId = Some r" and "maxUsers r \<le> set_size (users r)"
  shows "on_create_room socketId now roomId h
           = Inr (h, [Emit (ToSocket socketId) ''join-error'' [(''error'', Str ''Room is full'')]])
       \<and> recipients members (ToSocket socketId) = {socketId}"
  using assms
  by (simp add: on_create_room_def roomExists_def joinRoom_full truthy_def ROOM_FULL_def
      JOIN_ERROR_def)

theorem create_room_full_witness:
  "map_of (roomManager
       \<lparr>roomManager = [(''R'', \<lparr>room_id = ''R'', users = [''a'', ''b''], createdAt = 0, maxUsers = 2\<rparr>)],
        userSockets = [''a'', ''b'', ''c'']\<rparr>) ''R''
     = Some \<lparr>room_id = ''R'', users = [''a'', ''b''], createdAt = 0, maxUsers = 2\<rparr>
   \<and> maxUsers \<lparr>room_id = ''R'', users = [''a'', ''b''], createdAt = 0, maxUsers = 2\<rparr>
       \<le> set_size (users \<lparr>room_id = ''R'', users = [''a'', ''b''], createdAt = 0, maxUsers = 2\<rparr>)
   \<and> on_create_room ''c'' 9 ''R''
       \<lparr>roomManager = [(''R'', \<lparr>room_id = ''R'', users = [''a'', ''b''], createdAt = 0, maxUsers = 2\<rparr>)],
        userSockets = [''a'', ''b'', ''c'']\<rparr>
     = Inr (\<lparr>roomManager = [(''R'', \<lparr>room_id = ''R'', users = [''a'', ''b''], createdAt = 0, maxUsers = 2\<rparr>)],
             userSockets = [''a'', ''b'', ''c'']\<rparr>,
            [Emit (ToSocket ''c'') ''join-error'' [(''error'', Str ''Room is full'')] :: unit transport_call])"
proof -
  have h1: "map_of (roomManager
       \<lparr>roomManager = [(''R'', \<lparr>room_id = ''R'', users = [''a'', ''b''], createdAt = 0, maxUsers = 2\<rparr>)],
        userSockets = [''a'', ''b'', ''c'']\<rparr>) ''R''
     = Some \<lparr>room_id = ''R'', users = [''a'', ''b''], createdAt = 0, maxUsers = 2\<rparr>"
    by simp
  have h2: "maxUsers \<lparr>room_id = ''R'', users = [''a'', ''b''], createdAt = 0, maxUsers = 2\<rparr>
       \<le> set_size (users \<lparr>room_id = ''R'', users = [''a'', ''b''], createdAt = 0, maxUsers = 2\<rparr>)"
    by (simp add: set_size_def)
  from h1 h2 create_room_full [OF h1 h2, of "''c''" 9] show ?thesis by blast
qed

text \<open>C5. A \<^verbatim>\<open>join-room\<close> request calls \<^verbatim>\<open>joinRoom\<close>. When the room is absent the
  handler falls back to \<^verbatim>\<open>createRoom\<close> and no error is emitted; when the room has space
  the join stands. In both cases the socket joins the transport group of the room and
  one \<^verbatim>\<open>user-joined\<close> is emitted to the whole group, carrying the room's member list as
  the registry now has it. When the room is full the only call is a \<^verbatim>\<open>join-error\<close> to
  the requester.\<close>

theorem join_room_request:
  "(map_of (roomManager h) roomId = None \<longrightarrow>
      (on_join_room socketId now roomId h :: js_error + handler \<times> 'p transport_call list)
        = Inr (h\<lparr>roomManager := fst (createRoom now roomId socketId (roomManager h))\<rparr>,
               [SocketJoin socketId roomId,
                Emit (ToRoom roomId) ''user-joined''
                  [(''roomId'', Str roomId), (''userId'', Str socketId),
                   (''users'', StrList (getRoomUsers roomId
                        (fst (createRoom now roomId socketId (roomManager h)))))]])
      \<and> getRoomUsers roomId (fst (createRoom now roomId socketId (roomManager h))) = [socketId])
   \<and> (\<forall>r. map_of (roomManager h) roomId = Some r \<and> set_size (users r) < maxUsers r \<longrightarrow>
      on_join_room socketId now roomId h
        = Inr (h\<lparr>roomManager := fst (joinRoom roomId socketId (roomManager h))\<rparr>,
               [SocketJoin socketId roomId,
                Emit (ToRoom roomId) ''user-joined''
                  [(''roomId'', Str roomId), (''userId'', Str socketId),
                   (''users'', StrList (getRoomUsers roomId
                        (fst (joinRoom roomId socketId (roomManager h)))))]])
      \<and> getRoomUsers roomId (fst (joinRoom roomId socketId (roomManager h)))
          = set_add socketId (users r))
   \<and> (\<forall>r. map_of (roomManager h) roomId = Some r \<and> maxUsers r \<le> set_size (users r) \<longrightarrow>
      on_join_room socketId now roomId h
        = Inr (h, [Emit (ToSocket socketId) ''join-error'' [(''error'', Str ''Room is full'')]]))
   \<and> recipients members (ToRoom roomId) = members roomId"
proof (intro conjI allI impI)
  assume none: "map_of (roomManager h) roomId = None"
  show "on_join_room socketId now roomId h
        = Inr (h\<lparr>roomManager := fst (createRoom now roomId socketId (roomManager h))\<rparr>,
               [SocketJoin socketId roomId,
                Emit (ToRoom roomId) ''user-joined''
                  [(''roomId'', Str roomId), (''userId'', Str socketId),
                   (''users'', StrList (getRoomUsers roomId
                        (fst (createRoom now roomId socketId (roomManager h)))))]])"
    by (simp add: on_join_room_def joinRoom_absent [OF none] createRoom_fresh [OF none]
        getRoomUsers_def map_of_update_same sanitizeRoom_def USER_JOINED_def)
  show "getRoomUsers roomId (fst (createRoom now roomId socketId (roomManager h))) = [socketId]"
    by (simp add: createRoom_fresh [OF none] getRoomUsers_def map_of_update_same)
next
  fix r
  assume a: "map_of (roomManager h) roomId = Some r \<and> set_size (users r) < maxUsers r"
  then have j: "joinRoom roomId socketId (roomManager h) =
     (AList.update roomId (r\<lparr>users := set_add socketId (users r)\<rparr>) (roomManager h),
      JoinRoom (sanitizeRoom (r\<lparr>users := set_add socketId (users r)\<rparr>)))"
    by (simp add: joinRoom_space)
  show "on_join_room socketId now roomId h
        = Inr (h\<lparr>roomManager := fst (joinRoom roomId socketId (roomManager h))\<rparr>,
               [SocketJoin socketId roomId,
                Emit (ToRoom roomId) ''user-joined''
                  [(''roomId'', Str roomId), (''userId'', Str socketId),
                   (''users'', StrList (getRoomUsers roomId
                        (fst (joinRoom roomId socketId (roomManager h)))))]])"
    by (simp add: on_join_room_def j getRoomUsers_def map_of_update_same sanitizeRoom_def
        USER_JOINED_def)
  show "getRoomUsers roomId (fst (joinRoom roomId socketId (roomManager h)))
          = set_add socketId (users r)"
    by (simp add: j getRoomUsers_def map_of_update_same)
next
  fix r
  assume a: "map_of (roomManager h) roomId = Some r \<and> maxUsers r \<le> set_size (users r)"
  then have j: "joinRoom roomId socketId (roomManager h) = (roomManager h, JoinError ROOM_FULL)"
    by (simp add: joinRoom_full)
  show "on_join_room socketId now roomId h
        = Inr (h, [Emit (ToSocket socketId) ''join-error'' [(''error'', Str ''Room is full'')]])"
    by (simp add: on_join_room_def j truthy_def ROOM_FULL_def JOIN_ERROR_def)
next
  show "recipients members (ToRoom roomId) = members roomId" by simp
qed

theorem join_room_request_witness:
  "map_of (roomManager \<lparr>roomManager = [], userSockets = [''a'']\<rparr>) ''R'' = None
   \<and> on_join_room ''a'' 5 ''R'' \<lparr>roomManager = [], userSockets = [''a'']\<rparr>
       = Inr (\<lparr>roomManager = [(''R'', \<lparr>room_id = ''R'', users = [''a''], createdAt = 5, maxUsers = 2\<rparr>)],
               userSockets = [''a'']\<rparr>,
              [SocketJoin ''a'' ''R'',
               Emit (ToRoom ''R'') ''user-joined''
                 [(''roomId'', Str ''R''), (''userId'', Str ''a''), (''users'', StrList [''a''])]
               :: unit transport_call])
   \<and> on_join_room ''b'' 2 ''R''
        \<lparr>roomManager = [(''R'', \<lparr>room_id = ''R'', users = [''a''], createdAt = 5, maxUsers = 2\<rparr>)],
         userSockets = [''a'', ''b'']\<rparr>
       = Inr (\<lparr>roomManager = [(''R'', \<lparr>room_id = ''R'', users = [''a'', ''b''], createdAt = 5, maxUsers = 2\<rparr>)],
               userSockets = [''a'', ''b'']\<rparr>,
              [SocketJoin ''b'' ''R'',
               Emit (ToRoom ''R'') ''user-joined''
                 [(''roomId'', Str ''R''), (''userId'', Str ''b''), (''users'', StrList [''a'', ''b''])]
               :: unit transport_call])
   \<and> on_join_room ''c'' 3 ''R''
        \<lparr>roomManager = [(''R'', \<lparr>room_id = ''R'', users = [''a'', ''b''], createdAt = 5, maxUsers = 2\<rparr>)],
         userSockets = [''a'', ''b'', ''c'']\<rparr>
       = Inr (\<lparr>roomManager = [(''R'', \<lparr>room_id = ''R'', users = [''a'', ''b''], createdAt = 5, maxUsers = 2\<rparr>)],
               userSockets = [''a'', ''b'', ''c'']\<rparr>,
              [Emit (ToSocket ''c'') ''join-error'' [(''error'', Str ''Room is full'')]
               :: unit transport_call])"
proof -
  have c1: "fst (createRoom 5 ''R'' ''a'' []) =
              [(''R'', \<lparr>room_id = ''R'', users = [''a''], createdAt = 5, maxUsers = 2\<rparr>)]"
    by (simp add: createRoom_def roomExists_def Let_def set_add_def MAX_USERS_DEFAULT_def)
  have j2: "fst (joinRoom ''b'' ''R'' []) = []"
    by (simp add: joinRoom_def)
  have j1: "fst (joinRoom ''R'' ''b''
                [(''R'', \<lparr>room_id = ''R'', users = [''a''], createdAt = 5, maxUsers = 2\<rparr>)]) =
              [(''R'', \<lparr>room_id = ''R'', users = [''a'', ''b''], createdAt = 5, maxUsers = 2\<rparr>)]"
    by (simp add: joinRoom_def Let_def set_add_def set_size_def)
  show ?thesis
    using
      join_room_request [where h = "\<lparr>roomManager = [], userSockets = [''a'']\<rparr>"
        and roomId = "''R''" and socketId = "''a''" and now = 5 and members = own_group and 'p = unit]
      join_room_request [where h = "\<lparr>roomManager =
          [(''R'', \<lparr>room_id = ''R'', users = [''a''], createdAt = 5, maxUsers = 2\<rparr>)],
          userSockets = [''a'', ''b'']\<rparr>"
        and roomId = "''R''" and socketId = "''b''" and now = 2 and members = own_group and 'p = unit]
      join_room_request [where h = "\<lparr>roomManager =
          [(''R'', \<lparr>room_id = ''R'', users = [''a'', ''b''], createdAt = 5, maxUsers = 2\<rparr>)],
          userSockets = [''a'', ''b'', ''c'']\<rparr>"
        and roomId = "''R''" and socketId = "''c''" and now = 3 and members = own_group and 'p = unit]
    by (simp add: c1 j1 getRoomUsers_def set_size_def set_add_def)
qed

text \<open>C6, at the input where the code departs from it. A connection that created the room
  with the empty string as id is found in that room by \<^verbatim>\<open>getUserRoom\<close>, yet on
  disconnection the test \<^verbatim>\<open>if (roomId)\<close> fails: \<^verbatim>\<open>leaveRoom\<close> is not called, no
  \<^verbatim>\<open>user-left\<close> is emitted and the room keeps the departed member. Only the entry in
  \<^verbatim>\<open>userSockets\<close> is removed. (For a non-empty room id the handler does what the claim
  says: \<open>handleDisconnection_in_room\<close>.)\<close>

theorem disconnect_empty_room_id:
  "on_create_room ''s1'' 0 '''' (handleConnection ''s1'' \<lparr>roomManager = [], userSockets = []\<rparr>)
     = Inr (\<lparr>roomManager = [('''', \<lparr>room_id = '''', users = [''s1''], createdAt = 0, maxUsers = 2\<rparr>)],
             userSockets = [''s1'']\<rparr>,
            [SocketJoin ''s1'' '''',
             Emit (ToSocket ''s1'') ''room-created''
               [(''roomId'', Str ''''), (''userId'', Str ''s1''), (''users'', StrList [''s1''])]
             :: unit transport_call])
   \<and> getUserRoom ''s1''
         [('''', \<lparr>room_id = '''', users = [''s1''], createdAt = 0, maxUsers = 2\<rparr>)] = Some ''''
   \<and> handleDisconnection ''s1''
         \<lparr>roomManager = [('''', \<lparr>room_id = '''', users = [''s1''], createdAt = 0, maxUsers = 2\<rparr>)],
          userSockets = [''s1'']\<rparr>
     = (\<lparr>roomManager = [('''', \<lparr>room_id = '''', users = [''s1''], createdAt = 0, maxUsers = 2\<rparr>)],
         userSockets = []\<rparr>,
        [] :: unit transport_call list)"
  by (simp add: on_create_room_def handleConnection_def roomExists_def createRoom_def Let_def
      set_add_def sanitizeRoom_def set_size_def MAX_USERS_DEFAULT_def ROOM_CREATED_def
      handleDisconnection_def truthy_def set_delete_def)




end
